theory Spec2Isabelle
  imports Main "HOL-Library.Sublist"
begin

section \<open>Data model\<close>

text \<open>
  The join-plan construction of \<^verbatim>\<open>scidbpy/relational.py\<close> only ever inspects and
  rewrites the schema of an array: the ordered dimension names and the ordered attributes
  with their declared type names. An array handle is therefore modelled by its schema.
  Dimensions carry no type: in the data model every dimension is an integer index axis.
\<close>

record sdbarray =
  dim_names :: "string list"
  atts :: "(string \<times> string) list"

definition att_names :: "sdbarray \<Rightarrow> string list" where
  "att_names x = map fst (atts x)"

definition names :: "sdbarray \<Rightarrow> string list" where
  "names x = att_names x @ dim_names x"

text \<open>The three kinds of failure: \<^verbatim>\<open>NotImplementedError\<close>, \<^verbatim>\<open>ValueError\<close>, and anything
  raised by a collaborator.\<close>

datatype error = Unsupported_Operation | Invalid_Argument | Engine_Error

text \<open>Every use of a collaborator (an operation of an array handle, a read of its schema,
  a helper of \<^verbatim>\<open>schema_utils\<close> or \<^verbatim>\<open>robust\<close>, the label allocator) is recorded.\<close>

datatype call =
    Att_names | Dim_names | Sdbtype | New_attribute_label | Getitem | Sort_afl | Uniq_afl | Eval
  | Boundify | Hstack | As | Index_lookup | Attribute_rename | Dimension_rename
  | To_dimensions | Cross_join | Unpack | Project

text \<open>A computation yields the collaborator calls it made, in order, and either the error
  that stopped it or its value.\<close>

type_synonym 'a eng = "call list \<times> (error + 'a)"

definition return_eng :: "'a \<Rightarrow> 'a eng" where
  "return_eng v = ([], Inr v)"

definition raise_eng :: "error \<Rightarrow> 'a eng" where
  "raise_eng e = ([], Inl e)"

definition invoke :: "call \<Rightarrow> error + 'a \<Rightarrow> 'a eng" where
  "invoke c r = ([c], r)"

definition reads :: "call \<Rightarrow> nat \<Rightarrow> unit eng" where
  "reads c n = (replicate n c, Inr ())"

definition bind_eng :: "'a eng \<Rightarrow> ('a \<Rightarrow> 'b eng) \<Rightarrow> 'b eng" where
  "bind_eng m f =
     (case m of
        (log, Inl e) \<Rightarrow> (log, Inl e)
      | (log, Inr v) \<Rightarrow> (case f v of (log1, r) \<Rightarrow> (log @ log1, r)))"

section \<open>Python strings\<close>

text \<open>\<^verbatim>\<open>a.endswith(s)\<close>\<close>

definition endswith :: "string \<Rightarrow> string \<Rightarrow> bool" where
  "endswith a s = suffix s a"

text \<open>\<^verbatim>\<open>a.replace(old, new)\<close> replaces every non-overlapping occurrence of \<^verbatim>\<open>old\<close>, scanning
  from the left; an empty \<^verbatim>\<open>old\<close> matches before every character and at the end.\<close>

function replace_scan :: "string \<Rightarrow> string \<Rightarrow> string \<Rightarrow> string" where
  "replace_scan old new [] = []"
| "replace_scan old new (c # cs) =
     (if old \<noteq> [] \<and> prefix old (c # cs)
      then new @ replace_scan old new (drop (length old) (c # cs))
      else c # replace_scan old new cs)"
  by pat_completeness auto
termination
  by (relation "measure (\<lambda>(old, new, s). length s)") (auto simp: neq_Nil_conv)

definition replace :: "string \<Rightarrow> string \<Rightarrow> string \<Rightarrow> string" where
  "replace a old new =
     (if old = [] then new @ concat (map (\<lambda>c. c # new) a) else replace_scan old new a)"

section \<open>Collaborators\<close>

text \<open>
  Modelled from the spec: how a rename reads its arguments. They are a flat list
  \<^verbatim>\<open>old1, new1, old2, new2, ...\<close> of pairs of old and new names; a list of odd length is
  malformed.
\<close>

fun pairs_of :: "string list \<Rightarrow> (string \<times> string) list option" where
  "pairs_of [] = Some []"
| "pairs_of [x] = None"
| "pairs_of (x # y # zs) = map_option (Cons (x, y)) (pairs_of zs)"

text \<open>Modelled from the spec: the new name of a column under a list of rename pairs; a
  column that no pair names keeps its name.\<close>

definition rename_name :: "(string \<times> string) list \<Rightarrow> string \<Rightarrow> string" where
  "rename_name ps n = (case map_of ps n of Some m \<Rightarrow> m | None \<Rightarrow> n)"

text \<open>Modelled from the spec: the engine keeps dimension and attribute names unique within
  one schema, so an operation whose result would break this fails.\<close>

definition checked :: "sdbarray \<Rightarrow> error + sdbarray" where
  "checked y = (if distinct (names y) then Inr y else Inl Engine_Error)"

text \<open>
  Modelled from the spec: \<^verbatim>\<open>attribute_rename\<close> of an array handle is not in this module. It
  takes pairs of old and new names and gives a new handle; a malformed pair (an odd
  argument list, an old name that is no attribute of the array) is an engine error, and so
  is a result whose names are no longer unique. All pairs are applied at once. With no pair
  at all the handle is returned as it is.
\<close>

definition attribute_rename :: "sdbarray \<Rightarrow> string list \<Rightarrow> sdbarray eng" where
  "attribute_rename x args =
     invoke Attribute_rename
       (case pairs_of args of
          None \<Rightarrow> Inl Engine_Error
        | Some ps \<Rightarrow>
            if ps = [] then Inr x
            else if \<not> set (map fst ps) \<subseteq> set (att_names x) then Inl Engine_Error
            else checked (x\<lparr>atts := map (\<lambda>(n, t). (rename_name ps n, t)) (atts x)\<rparr>))"

text \<open>
  Modelled from the spec: \<^verbatim>\<open>dimension_rename\<close> of an array handle is not in this module. It
  is \<^verbatim>\<open>attribute_rename\<close> for the dimensions.
\<close>

definition dimension_rename :: "sdbarray \<Rightarrow> string list \<Rightarrow> sdbarray eng" where
  "dimension_rename x args =
     invoke Dimension_rename
       (case pairs_of args of
          None \<Rightarrow> Inl Engine_Error
        | Some ps \<Rightarrow>
            if ps = [] then Inr x
            else if \<not> set (map fst ps) \<subseteq> set (dim_names x) then Inl Engine_Error
            else checked (x\<lparr>dim_names := map (rename_name ps) (dim_names x)\<rparr>))"

section \<open>Schema disambiguation: \<^verbatim>\<open>_apply_suffix\<close>\<close>

text \<open>\<^verbatim>\<open>list(lnames & rnames)\<close>: the names of the left array that the right array has too.
  Python fixes no order for the elements of a set; here they come in the order of the left
  schema.\<close>

definition common_names :: "sdbarray \<Rightarrow> sdbarray \<Rightarrow> string list" where
  "common_names left right =
     filter (\<lambda>n. n \<in> set (att_names right) \<union> set (dim_names right))
       (remdups (att_names left @ dim_names left))"

text \<open>The inner function \<^verbatim>\<open>_relabel(x, dups, suffix)\<close>. Each generator reads the name
  list once for every element of \<^verbatim>\<open>dups\<close>, before the rename is called.\<close>

definition relabel :: "sdbarray \<Rightarrow> string list \<Rightarrow> string \<Rightarrow> sdbarray eng" where
  "relabel x dups sfx =
     bind_eng (reads Att_names (length dups)) (\<lambda>_.
     bind_eng (attribute_rename x
                 (concat (map (\<lambda>d. [d, d @ sfx])
                    (filter (\<lambda>d. d \<in> set (att_names x)) dups)))) (\<lambda>x1.
     bind_eng (reads Dim_names (length dups)) (\<lambda>_.
     dimension_rename x1
       (concat (map (\<lambda>d. [d, d @ sfx])
          (filter (\<lambda>d. d \<in> set (dim_names x1)) dups))))))"

definition apply_suffix ::
  "sdbarray \<Rightarrow> sdbarray \<Rightarrow> string list \<Rightarrow> string list \<Rightarrow> string \<times> string
     \<Rightarrow> (sdbarray \<times> sdbarray \<times> string list \<times> string list) eng" where
  "apply_suffix left right left_on right_on sfxs =
     bind_eng (invoke Att_names (Inr ())) (\<lambda>_.
     bind_eng (invoke Dim_names (Inr ())) (\<lambda>_.
     bind_eng (invoke Att_names (Inr ())) (\<lambda>_.
     bind_eng (invoke Dim_names (Inr ())) (\<lambda>_.
       let left_on_old = left_on;
           left_on1 = map (\<lambda>l. if l \<notin> set right_on then l else l @ fst sfxs) left_on;
           right_on1 = map (\<lambda>r. if r \<notin> set left_on_old then r else r @ snd sfxs) right_on;
           duplicates = common_names left right
       in bind_eng (relabel left duplicates (fst sfxs)) (\<lambda>new_left.
          bind_eng (relabel right duplicates (snd sfxs)) (\<lambda>new_right.
          return_eng (new_left, new_right, left_on1, right_on1)))))))"

section \<open>Key materialisation: \<^verbatim>\<open>_prepare_join_schema\<close>\<close>

text \<open>\<^verbatim>\<open>pat in s\<close> for two strings: \<^verbatim>\<open>pat\<close> occurs in \<^verbatim>\<open>s\<close> as a contiguous piece.\<close>

fun str_contains :: "string \<Rightarrow> string \<Rightarrow> bool" where
  "str_contains [] pat = (pat = [])"
| "str_contains (c # cs) pat = (prefix pat (c # cs) \<or> str_contains cs pat)"

text \<open>
  Modelled from the spec: the name that the unique-name allocator picks is not fixed by the
  spec beyond colliding with no name that is taken. Here it is the hint itself when that is
  free, and otherwise the hint followed by the least number of underscores that makes it
  free.
\<close>

definition fresh_label :: "string \<Rightarrow> string list \<Rightarrow> string" where
  "fresh_label hint taken =
     (case find (\<lambda>c. c \<notin> set taken)
             (map (\<lambda>k. hint @ replicate k (CHR ''_'')) [0 ..< Suc (length taken)]) of
        Some c \<Rightarrow> c
      | None \<Rightarrow> hint)"

text \<open>
  Modelled from the spec: the unique-name allocator \<^verbatim>\<open>_new_attribute_label(hint, array)\<close> of
  \<^verbatim>\<open>utils\<close> is not in this module. It returns a name that collides with no dimension or
  attribute of the array.
\<close>

definition new_attribute_label :: "string \<Rightarrow> sdbarray \<Rightarrow> string eng" where
  "new_attribute_label hint x = invoke New_attribute_label (Inr (fresh_label hint (names x)))"

text \<open>
  Modelled from the spec: indexing an array handle by a name, \<^verbatim>\<open>x[l]\<close>, is not in this
  module. It extracts the values of one attribute as a one-column array; a name that is no
  attribute of the array is an engine error.
\<close>

definition getitem :: "sdbarray \<Rightarrow> string \<Rightarrow> sdbarray eng" where
  "getitem x l =
     invoke Getitem
       (case map_of (atts x) l of
          None \<Rightarrow> Inl Engine_Error
        | Some t \<Rightarrow> Inr \<lparr>dim_names = dim_names x, atts = [(l, t)]\<rparr>)"

text \<open>
  Modelled from the spec: the engine's \<^verbatim>\<open>sort\<close> is not in this module. It gives the sorted
  column as a one-column index array. The single index axis of such an array has a name
  that the spec does not fix and that nothing reads, so no dimension name is listed for it.
\<close>

definition sort_afl :: "sdbarray \<Rightarrow> sdbarray eng" where
  "sort_afl x = invoke Sort_afl (Inr (x\<lparr>dim_names := []\<rparr>))"

text \<open>
  Modelled from the spec: the engine's \<^verbatim>\<open>uniq\<close> is not in this module. It removes adjacent
  equal values of a sorted column, and gives a one-column index array as \<^verbatim>\<open>sort\<close> does.
\<close>

definition uniq :: "sdbarray \<Rightarrow> sdbarray eng" where
  "uniq x = invoke Uniq_afl (Inr (x\<lparr>dim_names := []\<rparr>))"

text \<open>
  Modelled from the spec: \<^verbatim>\<open>eval\<close> of an array handle is not in this module. It forces the
  lazy plan of the handle; the schema stays as it is.
\<close>

definition eval :: "sdbarray \<Rightarrow> sdbarray eng" where
  "eval x = invoke Eval (Inr x)"

text \<open>
  Modelled from the spec: \<^verbatim>\<open>boundify\<close> of \<^verbatim>\<open>schema_utils\<close> is not in this module. The spec
  gives it no effect on the names or types of the array.
\<close>

definition boundify :: "sdbarray \<Rightarrow> sdbarray eng" where
  "boundify x = invoke Boundify (Inr x)"

text \<open>
  Modelled from the spec: \<^verbatim>\<open>hstack\<close> of the interface is not in this module. It stacks two
  one-column arrays whose columns have the same name; the result has that column.
\<close>

definition hstack :: "sdbarray \<Rightarrow> sdbarray \<Rightarrow> sdbarray eng" where
  "hstack a b = invoke Hstack (Inr a)"

text \<open>
  Modelled from the spec: \<^verbatim>\<open>as_\<close> of an array handle is not in this module. It gives the
  array under an alias.
\<close>

definition as_alias :: "sdbarray \<Rightarrow> string \<Rightarrow> (string \<times> sdbarray) eng" where
  "as_alias x alias = invoke As (Inr (alias, x))"

text \<open>
  Modelled from the spec: the engine's
  \<^verbatim>\<open>index_lookup(array, index, key_attr, out_attr, options)\<close> is not in this module. It adds
  to the aliased array a new integer attribute \<^verbatim>\<open>out_attr\<close> holding, for every row, the
  position of the row's \<^verbatim>\<open>key_attr\<close> value in the index. The key is named through the
  alias, and must be an attribute of the array.
\<close>

definition index_lookup ::
  "string \<times> sdbarray \<Rightarrow> sdbarray \<Rightarrow> string \<Rightarrow> string \<Rightarrow> string \<Rightarrow> sdbarray eng" where
  "index_lookup ax idx key_attr out_attr options =
     invoke Index_lookup
       (if key_attr \<notin> set (map (\<lambda>a. fst ax @ ''.'' @ a) (att_names (snd ax)))
        then Inl Engine_Error
        else checked ((snd ax)\<lparr>atts := atts (snd ax) @ [(out_attr, ''int64'')]\<rparr>))"

text \<open>
  Modelled from the spec: \<^verbatim>\<open>to_dimensions(array, *names)\<close> of \<^verbatim>\<open>schema_utils\<close> is not in this
  module. It converts the named attributes into dimensions; a name that is already a
  dimension stays one, and a name that the array does not have is an engine error.
\<close>

definition to_dimensions :: "sdbarray \<Rightarrow> string list \<Rightarrow> sdbarray eng" where
  "to_dimensions x ns =
     invoke To_dimensions
       (if \<not> set ns \<subseteq> set (names x) then Inl Engine_Error
        else checked
          \<lparr>dim_names = dim_names x @ filter (\<lambda>a. a \<in> set ns) (att_names x),
           atts = filter (\<lambda>(a, t). a \<notin> set ns) (atts x)\<rparr>)"

text \<open>The loop over \<^verbatim>\<open>enumerate(zip(left_on, right_on))\<close>, from position \<^verbatim>\<open>i\<close> on. \<^verbatim>\<open>dt\<close> is
  the dictionary of attribute types of the left array as it was passed in.\<close>

fun prepare_loop ::
  "(string \<rightharpoonup> string) \<Rightarrow> nat \<Rightarrow> (string \<times> string) list
     \<Rightarrow> sdbarray \<times> sdbarray \<times> string list \<times> string list
     \<Rightarrow> (sdbarray \<times> sdbarray \<times> string list \<times> string list) eng" where
  "prepare_loop dt i [] st = return_eng st"
| "prepare_loop dt i ((l, r) # rest) (left, right, new_left, new_right) =
     (if (case dt l of None \<Rightarrow> True | Some t \<Rightarrow> str_contains t ''int'')
      then prepare_loop dt (Suc i) rest (left, right, new_left, new_right)
      else
        bind_eng (new_attribute_label (l @ ''_idx'') left) (\<lambda>left_att.
        bind_eng (new_attribute_label (r @ ''_idx'') right) (\<lambda>right_att.
        bind_eng (getitem left l) (\<lambda>a1.
        bind_eng (sort_afl a1) (\<lambda>a2.
        bind_eng (eval a2) (\<lambda>a3.
        bind_eng (uniq a3) (\<lambda>a4.
        bind_eng (eval a4) (\<lambda>a5.
        bind_eng (boundify a5) (\<lambda>lidx.
        bind_eng (getitem right r) (\<lambda>b1.
        bind_eng (sort_afl b1) (\<lambda>b2.
        bind_eng (uniq b2) (\<lambda>b3.
        bind_eng (eval b3) (\<lambda>b4.
        bind_eng (boundify b4) (\<lambda>b5.
        bind_eng (eval b5) (\<lambda>ridx.
        bind_eng (invoke Att_names (Inr ())) (\<lambda>_.
        bind_eng (invoke Att_names (Inr ())) (\<lambda>_.
        bind_eng (attribute_rename ridx [hd (att_names ridx), hd (att_names lidx)]) (\<lambda>c1.
        bind_eng (eval c1) (\<lambda>ridx1.
        bind_eng (hstack lidx ridx1) (\<lambda>d1.
        bind_eng (sort_afl d1) (\<lambda>d2.
        bind_eng (uniq d2) (\<lambda>idx.
        bind_eng (as_alias left ''L'') (\<lambda>la.
        bind_eng (index_lookup la idx (''L.'' @ l) left_att ''index_sorted=true'') (\<lambda>left1.
        bind_eng (as_alias right ''R'') (\<lambda>ra.
        bind_eng (index_lookup ra idx (''R.'' @ r) right_att ''index_sorted=true'') (\<lambda>right1.
        prepare_loop dt (Suc i) rest
          (left1, right1, new_left[i := left_att], new_right[i := right_att])))))))))))))))))))))))))))"

text \<open>\<^verbatim>\<open>_prepare_join_schema\<close>. Taking \<^verbatim>\<open>left.afl\<close> and \<^verbatim>\<open>left.interface\<close> only names the
  namespaces of the operations and is not recorded.\<close>

definition prepare_join_schema ::
  "sdbarray \<Rightarrow> sdbarray \<Rightarrow> string list \<Rightarrow> string list
     \<Rightarrow> (sdbarray \<times> sdbarray \<times> string list \<times> string list) eng" where
  "prepare_join_schema left right left_on right_on =
     bind_eng (invoke Sdbtype (Inr ())) (\<lambda>_.
     bind_eng (prepare_loop (map_of (rev (atts left))) 0 (zip left_on right_on)
                 (left, right, left_on, right_on)) (\<lambda>(left1, right1, new_left, new_right).
     bind_eng (to_dimensions left1 new_left) (\<lambda>left2.
     bind_eng (to_dimensions right1 new_right) (\<lambda>right2.
     return_eng (left2, right2, new_left, new_right)))))"

section \<open>Join orchestration: \<^verbatim>\<open>merge\<close>\<close>

text \<open>The arguments \<^verbatim>\<open>on\<close>, \<^verbatim>\<open>left_on\<close> and \<^verbatim>\<open>right_on\<close> are \<^verbatim>\<open>None\<close>, a string, or a list of
  strings. A string or a list is false in a condition exactly when it is empty.\<close>

datatype names_arg = Name string | Names "string list"

fun truthy :: "names_arg \<Rightarrow> bool" where
  "truthy (Name s) = (s \<noteq> [])"
| "truthy (Names xs) = (xs \<noteq> [])"

text \<open>
  Modelled from the spec: \<^verbatim>\<open>as_list\<close> of \<^verbatim>\<open>utils\<close> is not in this module. A single name
  stands for the list of that one name, and a list for itself.
\<close>

fun as_list :: "names_arg \<Rightarrow> string list" where
  "as_list (Name s) = [s]"
| "as_list (Names xs) = xs"

text \<open>
  Modelled from the spec: \<^verbatim>\<open>interleave\<close> of \<^verbatim>\<open>utils\<close> is not in this module. The interleaved
  list of two key lists holds the positional pairs one after another.
\<close>

definition interleave :: "string list \<Rightarrow> string list \<Rightarrow> string list" where
  "interleave xs ys = concat (map (\<lambda>(x, y). [x, y]) (zip xs ys))"

text \<open>
  Modelled from the spec: the native join \<^verbatim>\<open>cross_join(left, right, *pairs)\<close> of \<^verbatim>\<open>robust\<close>
  is not in this module. It equates dimensions only, pair by pair; its result has the
  dimensions of the left array, the dimensions of the right array that are not equated,
  and the attributes of both.
\<close>

definition cross_join :: "sdbarray \<Rightarrow> sdbarray \<Rightarrow> string list \<Rightarrow> sdbarray eng" where
  "cross_join left right args =
     invoke Cross_join
       (case pairs_of args of
          None \<Rightarrow> Inl Engine_Error
        | Some ps \<Rightarrow>
            if \<not> (set (map fst ps) \<subseteq> set (dim_names left) \<and>
                   set (map snd ps) \<subseteq> set (dim_names right))
            then Inl Engine_Error
            else checked
              \<lparr>dim_names = dim_names left @
                             filter (\<lambda>d. d \<notin> set (map snd ps)) (dim_names right),
               atts = atts left @ atts right\<rparr>)"

text \<open>
  Modelled from the spec: \<^verbatim>\<open>unpack\<close> of an array handle is not in this module. It flattens
  the index to the one named dimension and keeps the former dimensions as integer
  attributes in front of the others.
\<close>

definition unpack :: "sdbarray \<Rightarrow> string \<Rightarrow> sdbarray eng" where
  "unpack x idx =
     invoke Unpack
       (checked \<lparr>dim_names = [idx],
                 atts = map (\<lambda>d. (d, ''int64'')) (dim_names x) @ atts x\<rparr>)"

text \<open>
  Modelled from the spec: \<^verbatim>\<open>project\<close> of an array handle is not in this module. It keeps the
  named attributes, which must be attributes of the array, and all dimensions.
\<close>

definition project :: "sdbarray \<Rightarrow> string list \<Rightarrow> sdbarray eng" where
  "project x ns =
     invoke Project
       (if \<not> set ns \<subseteq> set (att_names x) then Inl Engine_Error
        else Inr (x\<lparr>atts := filter (\<lambda>(a, t). a \<in> set ns) (atts x)\<rparr>))"

text \<open>Lines 171 to 200 of \<^verbatim>\<open>merge\<close>: the name sets are read, then the arguments are checked
  and the two key lists resolved.\<close>

definition merge_keys ::
  "sdbarray \<Rightarrow> sdbarray \<Rightarrow> names_arg option \<Rightarrow> names_arg option \<Rightarrow> names_arg option
     \<Rightarrow> string \<Rightarrow> (string list \<times> string list) eng" where
  "merge_keys left right on left_on right_on how =
     bind_eng (invoke Att_names (Inr ())) (\<lambda>_.
     bind_eng (invoke Dim_names (Inr ())) (\<lambda>_.
     bind_eng (invoke Att_names (Inr ())) (\<lambda>_.
     bind_eng (invoke Dim_names (Inr ())) (\<lambda>_.
       let lnames = set (att_names left) \<union> set (dim_names left);
           rnames = set (att_names right) \<union> set (dim_names right)
       in
       if how \<noteq> ''inner'' then raise_eng Unsupported_Operation
       else if (left_on \<noteq> None \<or> right_on \<noteq> None) \<and> on \<noteq> None
         then raise_eng Invalid_Argument
       else
         bind_eng
           (if left_on \<noteq> None \<or> right_on \<noteq> None then
              (case (left_on, right_on) of
                 (Some lo, Some ro) \<Rightarrow>
                   if length (as_list lo) \<noteq> length (as_list ro)
                   then raise_eng Invalid_Argument
                   else return_eng (as_list lo, as_list ro)
               | _ \<Rightarrow> raise_eng Invalid_Argument)
            else
              (let on1 = (case on of
                            None \<Rightarrow> common_names left right
                          | Some v \<Rightarrow> if truthy v then as_list v
                                      else common_names left right)
               in return_eng (on1, on1)))
           (\<lambda>(left_on1, right_on1).
              if \<exists>l \<in> set left_on1. l \<notin> lnames then raise_eng Invalid_Argument
              else if \<exists>r \<in> set right_on1. r \<notin> rnames then raise_eng Invalid_Argument
              else return_eng (left_on1, right_on1))))))"

text \<open>The loop of lines 229 to 235 that collects the final renames: \<^verbatim>\<open>as\<close> are the attribute
  names still to visit, \<^verbatim>\<open>all_names\<close> the attribute names of the result.\<close>

fun suffix_renames :: "string list \<Rightarrow> string list \<Rightarrow> string \<times> string \<Rightarrow> string list" where
  "suffix_renames [] all_names sfxs = []"
| "suffix_renames (a # as) all_names sfxs =
     (if \<not> endswith a (fst sfxs) then suffix_renames as all_names sfxs
      else if replace a (fst sfxs) (snd sfxs) \<notin> set all_names
        then a # replace a (fst sfxs) [] # suffix_renames as all_names sfxs
      else suffix_renames as all_names sfxs)"

text \<open>Lines 209 to 211: the names to keep.\<close>

definition keep_names :: "sdbarray \<Rightarrow> sdbarray \<Rightarrow> string list \<Rightarrow> string set" where
  "keep_names left right right_on =
     (set (att_names left) \<union> set (dim_names left) \<union> set (dim_names right)
        \<union> set (att_names right)) - set right_on"

text \<open>Lines 202 to 238 of \<^verbatim>\<open>merge\<close>, with the resolved key lists.\<close>

definition merge_pipeline ::
  "sdbarray \<Rightarrow> sdbarray \<Rightarrow> string list \<Rightarrow> string list \<Rightarrow> string \<times> string
     \<Rightarrow> sdbarray eng" where
  "merge_pipeline left right left_on right_on sfxs =
     bind_eng (apply_suffix left right left_on right_on sfxs)
       (\<lambda>(left1, right1, left_on1, right_on1).
     bind_eng (invoke Att_names (Inr ())) (\<lambda>_.
     bind_eng (invoke Dim_names (Inr ())) (\<lambda>_.
     bind_eng (invoke Dim_names (Inr ())) (\<lambda>_.
     bind_eng (invoke Att_names (Inr ())) (\<lambda>_.
     bind_eng (prepare_join_schema left1 right1 left_on1 right_on1)
       (\<lambda>(left2, right2, left_on2, right_on2).
     bind_eng (cross_join left2 right2 (interleave left_on2 right_on2)) (\<lambda>result.
     bind_eng (new_attribute_label ''_row'' result) (\<lambda>idx.
     bind_eng (unpack result idx) (\<lambda>result1.
     bind_eng (invoke Att_names (Inr ())) (\<lambda>_.
     bind_eng (project result1
                 (filter (\<lambda>a. a \<in> keep_names left1 right1 right_on1) (att_names result1)))
       (\<lambda>result2.
     bind_eng (reads Att_names
                 (Suc (length (filter (\<lambda>a. endswith a (fst sfxs)) (att_names result2)))))
       (\<lambda>_.
     attribute_rename result2
       (suffix_renames (att_names result2) (att_names result2) sfxs)))))))))))))"

definition merge ::
  "sdbarray \<Rightarrow> sdbarray \<Rightarrow> names_arg option \<Rightarrow> names_arg option \<Rightarrow> names_arg option
     \<Rightarrow> string \<Rightarrow> string \<times> string \<Rightarrow> sdbarray eng" where
  "merge left right on left_on right_on how sfxs =
     bind_eng (merge_keys left right on left_on right_on how) (\<lambda>(left_on1, right_on1).
     merge_pipeline left right left_on1 right_on1 sfxs)"

text \<open>The four reads of the name lists in lines 171 and 172, which come before every
  check.\<close>

definition validation_reads :: "call list" where
  "validation_reads = [Att_names, Dim_names, Att_names, Dim_names]"

text \<open>A computation that can only fail with an error of a collaborator.\<close>

definition engine_fail :: "'a eng \<Rightarrow> bool" where
  "engine_fail m = (case snd m of Inl e \<Rightarrow> e = Engine_Error | Inr v \<Rightarrow> True)"

text \<open>An array with one more integer attribute, as \<^verbatim>\<open>index_lookup\<close> returns it.\<close>

definition add_att :: "sdbarray \<Rightarrow> string \<Rightarrow> sdbarray" where
  "add_att x n = x\<lparr>atts := atts x @ [(n, ''int64'')]\<rparr>"




section \<open>Facts about computations\<close>

lemma snd_bind_eng_Inr:
  "snd (bind_eng m f) = Inr w \<longleftrightarrow> (\<exists>v. snd m = Inr v \<and> snd (f v) = Inr w)"
  by (cases m; cases "snd m") (auto simp: bind_eng_def split: prod.splits)

lemma snd_invoke [simp]: "snd (invoke c r) = r"
  by (simp add: invoke_def)

lemma snd_return_eng [simp]: "snd (return_eng v) = Inr v"
  by (simp add: return_eng_def)

lemma snd_reads [simp]: "snd (reads c n) = Inr ()"
  by (simp add: reads_def)

lemma fst_bind_eng:
  "fst (bind_eng m f) = fst m @ (case snd m of Inl e \<Rightarrow> [] | Inr v \<Rightarrow> fst (f v))"
  by (cases m; cases "snd m") (auto simp: bind_eng_def split: prod.splits)

lemma snd_bind_eng:
  "snd (bind_eng m f) = (case snd m of Inl e \<Rightarrow> Inl e | Inr v \<Rightarrow> snd (f v))"
  by (cases m; cases "snd m") (auto simp: bind_eng_def split: prod.splits)

lemma bind_eng_invoke_unit:
  "bind_eng (invoke c (Inr ())) f = (c # fst (f ()), snd (f ()))"
  by (simp add: bind_eng_def invoke_def split: prod.splits)

lemma bind_eng_raise: "bind_eng (raise_eng e) f = ([], Inl e)"
  by (simp add: bind_eng_def raise_eng_def)

lemma bind_eng_return: "bind_eng (return_eng v) f = f v"
  by (simp add: bind_eng_def return_eng_def split: prod.splits)

lemma engine_fail_bind:
  "engine_fail m \<Longrightarrow> (\<And>v. snd m = Inr v \<Longrightarrow> engine_fail (f v)) \<Longrightarrow> engine_fail (bind_eng m f)"
  by (cases "snd m") (auto simp: engine_fail_def snd_bind_eng)

lemma engine_fail_return [simp]: "engine_fail (return_eng v)"
  by (simp add: engine_fail_def)

lemma engine_fail_reads [simp]: "engine_fail (reads c n)"
  by (simp add: engine_fail_def)

lemma engine_fail_invoke_unit [simp]: "engine_fail (invoke c (Inr v))"
  by (simp add: engine_fail_def)

lemma engine_fail_checked [simp]: "engine_fail (invoke c (checked y))"
  by (simp add: engine_fail_def checked_def)

lemma engine_fail_attribute_rename [simp]: "engine_fail (attribute_rename x args)"
  by (simp add: engine_fail_def attribute_rename_def checked_def split: option.splits)

lemma engine_fail_dimension_rename [simp]: "engine_fail (dimension_rename x args)"
  by (simp add: engine_fail_def dimension_rename_def checked_def split: option.splits)

lemma engine_fail_relabel [simp]: "engine_fail (relabel x dups sfx)"
  unfolding relabel_def by (intro engine_fail_bind) simp_all

lemma engine_fail_apply_suffix [simp]: "engine_fail (apply_suffix l r lo ro sfxs)"
  unfolding apply_suffix_def Let_def by (intro engine_fail_bind) simp_all

lemma engine_fail_simple [simp]:
  "engine_fail (new_attribute_label h x)" "engine_fail (getitem x l)"
  "engine_fail (sort_afl x)" "engine_fail (uniq x)" "engine_fail (eval x)"
  "engine_fail (boundify x)" "engine_fail (hstack x y)" "engine_fail (as_alias x a)"
  "engine_fail (index_lookup ax idx k out opts)" "engine_fail (to_dimensions x ns)"
  "engine_fail (cross_join x y args)" "engine_fail (unpack x i)" "engine_fail (project x ns)"
  by (simp_all add: engine_fail_def new_attribute_label_def getitem_def sort_afl_def uniq_def
      eval_def boundify_def hstack_def as_alias_def index_lookup_def to_dimensions_def
      cross_join_def unpack_def project_def checked_def split: option.splits)

lemma engine_fail_prepare_loop: "engine_fail (prepare_loop dt i zs st)"
proof (induction dt i zs st rule: prepare_loop.induct)
  case (1 dt i st)
  then show ?case by simp
next
  case (2 dt i l r rest left right new_left new_right)
  show ?case
  proof (cases "case dt l of None \<Rightarrow> True | Some t \<Rightarrow> str_contains t ''int''")
    case True
    then show ?thesis using 2(1) by simp
  next
    case False
    then show ?thesis
      apply (simp del: bind_eng_def)
      apply (intro engine_fail_bind)
      apply (simp_all)
      apply (rule 2(2))
      apply (simp_all)
      done
  qed
qed

lemma engine_fail_prepare_join_schema: "engine_fail (prepare_join_schema l r lo ro)"
  unfolding prepare_join_schema_def
  by (intro engine_fail_bind | simp add: engine_fail_prepare_loop | clarify)+

lemma engine_fail_merge_pipeline: "engine_fail (merge_pipeline l r lo ro sfxs)"
  unfolding merge_pipeline_def
  by (intro engine_fail_bind | simp add: engine_fail_prepare_join_schema | clarify)+

lemma merge_pipeline_not_invalid: "snd (merge_pipeline l r lo ro sfxs) \<noteq> Inl Invalid_Argument"
  using engine_fail_merge_pipeline [of l r lo ro sfxs] by (auto simp: engine_fail_def)

lemma fst_merge_pipeline: "fst (merge_pipeline l r lo ro sfxs) \<noteq> []"
  by (simp add: merge_pipeline_def apply_suffix_def fst_bind_eng invoke_def)

lemma bind_eng_pure: "bind_eng ([], Inr v) f = f v" "bind_eng ([], Inl e) f = ([], Inl e)"
  by (simp_all add: bind_eng_def split: prod.splits)

lemma merge_keys_eq:
  "merge_keys left right on left_on right_on how =
     (validation_reads,
      if how \<noteq> ''inner'' then Inl Unsupported_Operation
      else if (left_on \<noteq> None \<or> right_on \<noteq> None) \<and> on \<noteq> None then Inl Invalid_Argument
      else case (left_on, right_on) of
          (Some lo, Some ro) \<Rightarrow>
            if length (as_list lo) \<noteq> length (as_list ro) then Inl Invalid_Argument
            else if \<not> set (as_list lo) \<subseteq> set (names left) then Inl Invalid_Argument
            else if \<not> set (as_list ro) \<subseteq> set (names right) then Inl Invalid_Argument
            else Inr (as_list lo, as_list ro)
        | (None, None) \<Rightarrow>
            (let on1 = (case on of None \<Rightarrow> common_names left right
                        | Some v \<Rightarrow> if truthy v then as_list v else common_names left right)
             in if \<not> set on1 \<subseteq> set (names left) then Inl Invalid_Argument
                else if \<not> set on1 \<subseteq> set (names right) then Inl Invalid_Argument
                else Inr (on1, on1))
        | _ \<Rightarrow> Inl Invalid_Argument)"
  unfolding merge_keys_def validation_reads_def bind_eng_invoke_unit
  by (cases left_on; cases right_on; cases on)
     (auto simp: bind_eng_pure raise_eng_def return_eng_def names_def Let_def)

section \<open>Properties of the disambiguator\<close>

lemma apply_suffix_Inr:
  "snd (apply_suffix left right left_on right_on sfxs) = Inr (l', r', lo', ro') \<longleftrightarrow>
     snd (relabel left (common_names left right) (fst sfxs)) = Inr l' \<and>
     snd (relabel right (common_names left right) (snd sfxs)) = Inr r' \<and>
     lo' = map (\<lambda>l. if l \<notin> set right_on then l else l @ fst sfxs) left_on \<and>
     ro' = map (\<lambda>r. if r \<notin> set left_on then r else r @ snd sfxs) right_on"
  by (auto simp: apply_suffix_def snd_bind_eng_Inr Let_def)

text \<open>
  C5. In the key lists returned by \<^verbatim>\<open>_apply_suffix\<close>, a left key that also occurs in the
  right key list carries the left suffix, a right key that also occurs in the left key list
  as it was passed in (before this step suffixed it) carries the right suffix, and every
  other key is unchanged.
\<close>

theorem apply_suffix_key_lists:
  assumes "snd (apply_suffix left right left_on right_on (sl, sr)) = Inr (l', r', lo', ro')"
  shows "length lo' = length left_on \<and> length ro' = length right_on \<and>
         (\<forall>i < length left_on.
            lo' ! i = (if left_on ! i \<in> set right_on then left_on ! i @ sl else left_on ! i)) \<and>
         (\<forall>j < length right_on.
            ro' ! j = (if right_on ! j \<in> set left_on then right_on ! j @ sr else right_on ! j))"
  using assms by (auto simp: apply_suffix_Inr)

theorem apply_suffix_key_lists_witness:
  "snd (apply_suffix \<lparr>dim_names = [''i''], atts = [(''a'', ''string'')]\<rparr>
          \<lparr>dim_names = [''j''], atts = [(''a'', ''string''), (''a_x'', ''int64'')]\<rparr>
          [''a''] [''a'', ''a_x''] (''_x'', ''_y'')) =
     Inr (\<lparr>dim_names = [''i''], atts = [(''a_x'', ''string'')]\<rparr>,
          \<lparr>dim_names = [''j''], atts = [(''a_y'', ''string''), (''a_x'', ''int64'')]\<rparr>,
          [''a_x''], [''a_y'', ''a_x'']) \<and>
   [''a_x''] ! 0 = ''a'' @ ''_x'' \<and> [''a_y'', ''a_x''] ! 0 = ''a'' @ ''_y'' \<and>
   [''a_y'', ''a_x''] ! 1 = ''a_x''"
proof -
  have h: "snd (apply_suffix \<lparr>dim_names = [''i''], atts = [(''a'', ''string'')]\<rparr>
          \<lparr>dim_names = [''j''], atts = [(''a'', ''string''), (''a_x'', ''int64'')]\<rparr>
          [''a''] [''a'', ''a_x''] (''_x'', ''_y'')) =
     Inr (\<lparr>dim_names = [''i''], atts = [(''a_x'', ''string'')]\<rparr>,
          \<lparr>dim_names = [''j''], atts = [(''a_y'', ''string''), (''a_x'', ''int64'')]\<rparr>,
          [''a_x''], [''a_y'', ''a_x''])"
    by code_simp
  show ?thesis using h apply_suffix_key_lists [OF h] by simp
qed

lemma relabel_nil: "relabel x [] sfx = ([Attribute_rename, Dimension_rename], Inr x)"
  by (simp add: relabel_def reads_def attribute_rename_def dimension_rename_def invoke_def
      bind_eng_def)

text \<open>
  C9, as amended. The disambiguator applied to two arrays without a common name and to two
  key lists without a common name returns the arrays and the key lists as they are; the
  two renames of each side are called with no pair. This covers a second application to
  what a first application produced, when no name collides across the sides and no name
  occurs in both produced key lists.
\<close>

theorem apply_suffix_idempotent:
  assumes "set (names left) \<inter> set (names right) = {}"
      and "set left_on \<inter> set right_on = {}"
  shows "apply_suffix left right left_on right_on sfxs =
           ([Att_names, Dim_names, Att_names, Dim_names,
             Attribute_rename, Dimension_rename, Attribute_rename, Dimension_rename],
            Inr (left, right, left_on, right_on))"
proof -
  have c: "common_names left right = []"
    using assms(1) by (auto simp: common_names_def names_def filter_empty_conv)
  have l: "map (\<lambda>l. if l \<notin> set right_on then l else l @ fst sfxs) left_on = left_on"
    using assms(2) by (intro map_idI) auto
  have r: "map (\<lambda>r. if r \<notin> set left_on then r else r @ snd sfxs) right_on = right_on"
    using assms(2) by (intro map_idI) auto
  show ?thesis
    by (simp add: apply_suffix_def c l r relabel_nil Let_def bind_eng_def return_eng_def
        invoke_def)
qed

theorem apply_suffix_idempotent_witness:
  "snd (apply_suffix \<lparr>dim_names = [''i''], atts = [(''id'', ''int64''), (''v'', ''string'')]\<rparr>
          \<lparr>dim_names = [''j''], atts = [(''id'', ''int64''), (''w'', ''string'')]\<rparr>
          [''id''] [''id''] (''_x'', ''_y'')) =
     Inr (\<lparr>dim_names = [''i''], atts = [(''id_x'', ''int64''), (''v'', ''string'')]\<rparr>,
          \<lparr>dim_names = [''j''], atts = [(''id_y'', ''int64''), (''w'', ''string'')]\<rparr>,
          [''id_x''], [''id_y'']) \<and>
   snd (apply_suffix \<lparr>dim_names = [''i''], atts = [(''id_x'', ''int64''), (''v'', ''string'')]\<rparr>
          \<lparr>dim_names = [''j''], atts = [(''id_y'', ''int64''), (''w'', ''string'')]\<rparr>
          [''id_x''] [''id_y''] (''_x'', ''_y'')) =
     Inr (\<lparr>dim_names = [''i''], atts = [(''id_x'', ''int64''), (''v'', ''string'')]\<rparr>,
          \<lparr>dim_names = [''j''], atts = [(''id_y'', ''int64''), (''w'', ''string'')]\<rparr>,
          [''id_x''], [''id_y''])"
proof -
  have a: "set (names \<lparr>dim_names = [''i''], atts = [(''id_x'', ''int64''), (''v'', ''string'')]\<rparr>) \<inter>
           set (names \<lparr>dim_names = [''j''], atts = [(''id_y'', ''int64''), (''w'', ''string'')]\<rparr>) = {}"
    by (simp add: names_def att_names_def)
  have b: "set [''id_x''] \<inter> set [''id_y''] = {}" by simp
  have c: "snd (apply_suffix \<lparr>dim_names = [''i''], atts = [(''id'', ''int64''), (''v'', ''string'')]\<rparr>
          \<lparr>dim_names = [''j''], atts = [(''id'', ''int64''), (''w'', ''string'')]\<rparr>
          [''id''] [''id''] (''_x'', ''_y'')) =
     Inr (\<lparr>dim_names = [''i''], atts = [(''id_x'', ''int64''), (''v'', ''string'')]\<rparr>,
          \<lparr>dim_names = [''j''], atts = [(''id_y'', ''int64''), (''w'', ''string'')]\<rparr>,
          [''id_x''], [''id_y''])"
    by code_simp
  show ?thesis using c apply_suffix_idempotent [OF a b, of "(''_x'', ''_y'')"] by simp
qed

text \<open>
  C9 as stated fails: the key lists are suffixed by membership in the other key list, not
  by the names of the arrays. Here the first application leaves no name common to the two
  arrays, and the second application still changes both key lists.
\<close>

theorem apply_suffix_twice_changes_keys:
  "snd (apply_suffix
          \<lparr>dim_names = [''a''], atts = [(''a_x'', ''int64'')]\<rparr>
          \<lparr>dim_names = [''a''], atts = [(''a_x'', ''int64'')]\<rparr>
          [''a'', ''a''] [''a'', ''a_x''] (''_x'', ''_y'')) =
     Inr (\<lparr>dim_names = [''a_x''], atts = [(''a_x_x'', ''int64'')]\<rparr>,
          \<lparr>dim_names = [''a_y''], atts = [(''a_x_y'', ''int64'')]\<rparr>,
          [''a_x'', ''a_x''], [''a_y'', ''a_x'']) \<and>
   set (names \<lparr>dim_names = [''a_x''], atts = [(''a_x_x'', ''int64'')]\<rparr>) \<inter>
     set (names \<lparr>dim_names = [''a_y''], atts = [(''a_x_y'', ''int64'')]\<rparr>) = {} \<and>
   snd (apply_suffix
          \<lparr>dim_names = [''a_x''], atts = [(''a_x_x'', ''int64'')]\<rparr>
          \<lparr>dim_names = [''a_y''], atts = [(''a_x_y'', ''int64'')]\<rparr>
          [''a_x'', ''a_x''] [''a_y'', ''a_x''] (''_x'', ''_y'')) =
     Inr (\<lparr>dim_names = [''a_x''], atts = [(''a_x_x'', ''int64'')]\<rparr>,
          \<lparr>dim_names = [''a_y''], atts = [(''a_x_y'', ''int64'')]\<rparr>,
          [''a_x_x'', ''a_x_x''], [''a_y'', ''a_x_y''])"
  by code_simp

section \<open>Properties of the argument checks\<close>

lemma merge_eq:
  "merge left right on left_on right_on how sfxs =
     (case snd (merge_keys left right on left_on right_on how) of
        Inl e \<Rightarrow> (validation_reads, Inl e)
      | Inr (lo, ro) \<Rightarrow>
          (validation_reads @ fst (merge_pipeline left right lo ro sfxs),
           snd (merge_pipeline left right lo ro sfxs)))"
proof -
  have "fst (merge_keys left right on left_on right_on how) = validation_reads"
    by (simp add: merge_keys_eq)
  then show ?thesis
    by (cases "merge_keys left right on left_on right_on how")
       (auto simp: merge_def bind_eng_def split: sum.splits prod.splits)
qed

lemma common_names_subset:
  "set (common_names left right) \<subseteq> set (names left)"
  "set (common_names left right) \<subseteq> set (names right)"
  by (auto simp: common_names_def names_def)



text \<open>
  C3, as amended. When \<^verbatim>\<open>how\<close> is not \<^verbatim>\<open>'inner'\<close>, \<^verbatim>\<open>merge\<close> fails with the
  unsupported-operation error, and the only collaborator operations it has invoked by then
  are the four reads of the attribute and dimension names of the two arrays.
\<close>

theorem merge_not_inner:
  assumes "how \<noteq> ''inner''"
  shows "merge left right on left_on right_on how sfxs =
           ([Att_names, Dim_names, Att_names, Dim_names], Inl Unsupported_Operation)"
  using assms by (simp add: merge_eq merge_keys_eq validation_reads_def)

theorem merge_not_inner_witness:
  "''left'' \<noteq> ''inner'' \<and>
   merge \<lparr>dim_names = [''i''], atts = [(''id'', ''int64'')]\<rparr>
         \<lparr>dim_names = [''j''], atts = [(''id'', ''int64'')]\<rparr>
         (Some (Name ''id'')) None None ''left'' (''_x'', ''_y'') =
     ([Att_names, Dim_names, Att_names, Dim_names], Inl Unsupported_Operation)"
proof -
  have h: "''left'' \<noteq> ''inner''" by simp
  show ?thesis using h merge_not_inner [OF h] by blast
qed

text \<open>C3 as stated fails: the schema of the arrays is read before the error is raised.\<close>

theorem schema_read_before_how_check:
  "fst (merge \<lparr>dim_names = [''i''], atts = [(''id'', ''int64'')]\<rparr>
              \<lparr>dim_names = [''j''], atts = [(''id'', ''int64'')]\<rparr>
              (Some (Name ''id'')) None None ''left'' (''_x'', ''_y'')) \<noteq> []"
  by code_simp

text \<open>
  C4. With \<^verbatim>\<open>how\<close> equal to \<^verbatim>\<open>'inner'\<close>, \<^verbatim>\<open>merge\<close> fails with the invalid-argument error
  exactly when \<^verbatim>\<open>on\<close> is supplied together with \<^verbatim>\<open>left_on\<close> or \<^verbatim>\<open>right_on\<close>, or only one of
  \<^verbatim>\<open>left_on\<close> and \<^verbatim>\<open>right_on\<close> is supplied, or the two have different lengths, or a resolved
  key is not among the dimension and attribute names of its side (the keys resolved from
  an absent or empty \<^verbatim>\<open>on\<close> are always names of both sides). When it fails so, nothing but
  the four reads of the name lists has been invoked: no step of the pipeline has run.
\<close>

theorem merge_invalid_argument_iff:
  assumes "how = ''inner''"
  shows "(snd (merge left right on left_on right_on how sfxs) = Inl Invalid_Argument \<longleftrightarrow>
            (on \<noteq> None \<and> (left_on \<noteq> None \<or> right_on \<noteq> None)) \<or>
            (left_on = None) \<noteq> (right_on = None) \<or>
            (\<exists>lo ro. left_on = Some lo \<and> right_on = Some ro \<and>
               (length (as_list lo) \<noteq> length (as_list ro) \<or>
                \<not> set (as_list lo) \<subseteq> set (names left) \<or>
                \<not> set (as_list ro) \<subseteq> set (names right))) \<or>
            (\<exists>v. on = Some v \<and> truthy v \<and>
               (\<not> set (as_list v) \<subseteq> set (names left) \<or>
                \<not> set (as_list v) \<subseteq> set (names right)))) \<and>
         (snd (merge left right on left_on right_on how sfxs) = Inl Invalid_Argument \<longrightarrow>
            fst (merge left right on left_on right_on how sfxs) = validation_reads)"
  using assms common_names_subset [of left right]
  by (cases left_on; cases right_on; cases on)
     (auto simp: merge_eq merge_keys_eq merge_pipeline_not_invalid Let_def)

theorem merge_invalid_argument_iff_witness:
  "''inner'' = ''inner'' \<and>
   snd (merge \<lparr>dim_names = [''i''], atts = [(''id'', ''int64'')]\<rparr>
              \<lparr>dim_names = [''j''], atts = [(''id'', ''int64'')]\<rparr>
              None (Some (Name ''id'')) (Some (Names [''id'', ''j''])) ''inner''
              (''_x'', ''_y'')) = Inl Invalid_Argument \<and>
   fst (merge \<lparr>dim_names = [''i''], atts = [(''id'', ''int64'')]\<rparr>
              \<lparr>dim_names = [''j''], atts = [(''id'', ''int64'')]\<rparr>
              None (Some (Name ''id'')) (Some (Names [''id'', ''j''])) ''inner''
              (''_x'', ''_y'')) = validation_reads"
  using merge_invalid_argument_iff [OF refl,
      of "\<lparr>dim_names = [''i''], atts = [(''id'', ''int64'')]\<rparr>"
         "\<lparr>dim_names = [''j''], atts = [(''id'', ''int64'')]\<rparr>"
         None "Some (Name ''id'')" "Some (Names [''id'', ''j''])" "(''_x'', ''_y'')"]
  by simp

text \<open>
  C2, as amended. When the two arrays share no name and none of \<^verbatim>\<open>on\<close>, \<^verbatim>\<open>left_on\<close>,
  \<^verbatim>\<open>right_on\<close> is supplied, \<^verbatim>\<open>merge\<close> does not fail with the invalid-argument error: the
  checks accept the empty default key set, and the pipeline runs with both key lists
  empty.
\<close>

theorem merge_disjoint_default_keys:
  assumes "set (names left) \<inter> set (names right) = {}"
  shows "snd (merge left right None None None ''inner'' sfxs) \<noteq> Inl Invalid_Argument \<and>
         merge left right None None None ''inner'' sfxs =
           (validation_reads @ fst (merge_pipeline left right [] [] sfxs),
            snd (merge_pipeline left right [] [] sfxs))"
proof -
  have "common_names left right = []"
    using assms by (auto simp: common_names_def names_def filter_empty_conv)
  then show ?thesis
    by (simp add: merge_eq merge_keys_eq merge_pipeline_not_invalid)
qed

theorem merge_disjoint_default_keys_witness:
  "set (names \<lparr>dim_names = [''i''], atts = [(''a'', ''int64'')]\<rparr>) \<inter>
     set (names \<lparr>dim_names = [''j''], atts = [(''b'', ''int64'')]\<rparr>) = {} \<and>
   snd (merge \<lparr>dim_names = [''i''], atts = [(''a'', ''int64'')]\<rparr>
              \<lparr>dim_names = [''j''], atts = [(''b'', ''int64'')]\<rparr>
              None None None ''inner'' (''_x'', ''_y'')) \<noteq> Inl Invalid_Argument"
proof -
  have h: "set (names \<lparr>dim_names = [''i''], atts = [(''a'', ''int64'')]\<rparr>) \<inter>
     set (names \<lparr>dim_names = [''j''], atts = [(''b'', ''int64'')]\<rparr>) = {}"
    by (simp add: names_def att_names_def)
  show ?thesis using h merge_disjoint_default_keys [OF h] by blast
qed

text \<open>C2 as stated fails: two arrays without a common name are joined on no key at all.\<close>

theorem merge_disjoint_no_invalid_argument:
  "snd (merge \<lparr>dim_names = [''i''], atts = [(''a'', ''int64'')]\<rparr>
              \<lparr>dim_names = [''j''], atts = [(''b'', ''int64'')]\<rparr>
              None None None ''inner'' (''_x'', ''_y'')) \<noteq> Inl Invalid_Argument"
  by code_simp

section \<open>Properties of the key materialiser\<close>




lemma names_add_att [simp]:
  "att_names (add_att x n) = att_names x @ [n]"
  "dim_names (add_att x n) = dim_names x"
  "set (names (add_att x n)) = insert n (set (names x))"
  by (auto simp: add_att_def att_names_def names_def)











section \<open>Properties of the result\<close>


















text \<open>
  C1 on the code. The final cleanup removes the left suffix with \<^verbatim>\<open>replace\<close>, which rewrites
  every occurrence. With an attribute \<^verbatim>\<open>a_xb\<close> on both sides and the join on \<^verbatim>\<open>k\<close>, the result
  holds \<^verbatim>\<open>a_xb_x\<close> and its counterpart \<^verbatim>\<open>a_xb_y\<close>; the cleanup looks for \<^verbatim>\<open>a_yb_y\<close>, does not
  find it, and renames \<^verbatim>\<open>a_xb_x\<close> to \<^verbatim>\<open>ab\<close>, although the counterpart is present and the
  name should stay.
\<close>

theorem merge_cleanup_strips_inner_occurrence:
  "snd (merge \<lparr>dim_names = [''i''], atts = [(''k'', ''int64''), (''a_xb'', ''int64'')]\<rparr>
              \<lparr>dim_names = [''j''], atts = [(''k'', ''int64''), (''a_xb'', ''int64'')]\<rparr>
              (Some (Name ''k'')) None None ''inner'' (''_x'', ''_y'')) =
     Inr \<lparr>dim_names = [''_row''],
          atts = [(''i'', ''int64''), (''k'', ''int64''), (''j'', ''int64''),
                  (''ab'', ''int64''), (''a_xb_y'', ''int64'')]\<rparr>"
  by code_simp

end
